theory Spec2Isabelle
  imports Main "HOL-Library.Sublist" "HOL-Library.Multiset"
begin

section \<open>The gateway's endpoint factories (cmd/gateway/main.go, lines 149-203)\<close>

text \<open>
  Go's \<^verbatim>\<open>*url.URL\<close> is a struct; the factories write only its \<^verbatim>\<open>Path\<close> field, so
  the record has that field and leaves every other field of the struct in the extension.
  \<^verbatim>\<open>url.Parse\<close> belongs to the standard library: the factories take it as the parameter
  \<open>parse\<close>, returning \<open>Inl err\<close> where Go returns a non-nil error.
\<close>

record url =
  Path :: string

text \<open>The request encoders and response decoders the two factories choose from.\<close>

datatype EncodeRequestFunc =
    EncodeHTTPGenericRequest   \<comment> \<open>\<^verbatim>\<open>addtransport.EncodeHTTPGenericRequest\<close>\<close>
  | EncodeRequest              \<comment> \<open>\<^verbatim>\<open>stringsvc.EncodeRequest\<close>\<close>

datatype DecodeResponseFunc =
    DecodeHTTPSumResponse      \<comment> \<open>\<^verbatim>\<open>addtransport.DecodeHTTPSumResponse\<close>\<close>
  | DecodeHTTPConcatResponse   \<comment> \<open>\<^verbatim>\<open>addtransport.DecodeHTTPConcatResponse\<close>\<close>
  | DecodeUppercaseResponse    \<comment> \<open>\<^verbatim>\<open>stringsvc.DecodeUppercaseResponse\<close>\<close>
  | DecodeCountResponse        \<comment> \<open>\<^verbatim>\<open>stringsvc.DecodeCountResponse\<close>\<close>

text \<open>
  \<^verbatim>\<open>httptransport.NewClient(method, tgt, enc, dec).Endpoint()\<close>: the endpoint is
  determined by the four arguments of the client it comes from.
\<close>

datatype 'u Endpoint =
  NewClient (ep_method: string) (ep_tgt: 'u) (ep_enc: EncodeRequestFunc) (ep_dec: DecodeResponseFunc)

text \<open>
  The two errors a factory returns: the error of \<^verbatim>\<open>url.Parse\<close>, handed on as it is, and
  \<^verbatim>\<open>fmt.Errorf("unknown stringsvc path %q", path)\<close> (both factories use this same text).
\<close>

datatype 'e build_error = ParseError 'e | UnknownPath string

text \<open>
  A \<^verbatim>\<open>sd.Factory\<close> returns the triple \<^verbatim>\<open>(endpoint.Endpoint, io.Closer, error)\<close>; \<open>None\<close>
  is Go's \<^verbatim>\<open>nil\<close>.
\<close>

type_synonym ('u, 'c, 'e) build = "'u Endpoint option \<times> 'c option \<times> 'e build_error option"

text \<open>
  \<^verbatim>\<open>addsvcFactory(ctx, method, path)\<close> returns a closure over \<^verbatim>\<open>instance\<close>; the model is
  the curried function. \<^verbatim>\<open>ctx\<close> is not used by the body. \<^verbatim>\<open>strings.HasPrefix\<close> is
  \<^const>\<open>prefix\<close>.
\<close>

definition addsvcFactory ::
  "(string \<Rightarrow> 'e + 'a url_scheme) \<Rightarrow> string \<Rightarrow> string \<Rightarrow> string \<Rightarrow> ('a url_scheme, 'c, 'e) build" where
  "addsvcFactory parse method path instance =
     (let instance = (if \<not> prefix ''http'' instance then ''http://'' @ instance else instance) in
      case parse instance of
        Inl err \<Rightarrow> (None, None, Some (ParseError err))
      | Inr tgt \<Rightarrow>
          (let tgt = tgt\<lparr>Path := path\<rparr> in
           if path = ''/sum'' then
             (Some (NewClient method tgt EncodeHTTPGenericRequest DecodeHTTPSumResponse), None, None)
           else if path = ''/concat'' then
             (Some (NewClient method tgt EncodeHTTPGenericRequest DecodeHTTPConcatResponse), None, None)
           else (None, None, Some (UnknownPath path))))"

definition stringsvcFactory ::
  "(string \<Rightarrow> 'e + 'a url_scheme) \<Rightarrow> string \<Rightarrow> string \<Rightarrow> string \<Rightarrow> ('a url_scheme, 'c, 'e) build" where
  "stringsvcFactory parse method path instance =
     (let instance = (if \<not> prefix ''http'' instance then ''http://'' @ instance else instance) in
      case parse instance of
        Inl err \<Rightarrow> (None, None, Some (ParseError err))
      | Inr tgt \<Rightarrow>
          (let tgt = tgt\<lparr>Path := path\<rparr> in
           if path = ''/uppercase'' then
             (Some (NewClient method tgt EncodeRequest DecodeUppercaseResponse), None, None)
           else if path = ''/count'' then
             (Some (NewClient method tgt EncodeRequest DecodeCountResponse), None, None)
           else (None, None, Some (UnknownPath path))))"

section \<open>Startup and route wiring (cmd/gateway/main.go, lines 29-147)\<close>

text \<open>The four command-line flags; \<^verbatim>\<open>time.Duration\<close> is a count of nanoseconds.\<close>

record flags =
  httpAddr :: string
  consulAddr :: string
  retryMax :: int
  retryTimeout :: int

definition default_flags :: flags where
  "default_flags =
     \<lparr>httpAddr = '':8000'', consulAddr = '':8500'', retryMax = 3, retryTimeout = 500 * 1000000\<rparr>"

text \<open>
  \<^verbatim>\<open>api.Config\<close>: the code writes only its \<^verbatim>\<open>Address\<close> field. \<^verbatim>\<open>api.DefaultConfig\<close> and
  \<^verbatim>\<open>api.NewClient\<close> belong to the Consul library and are parameters of the model
  (\<open>defaultConfig\<close>, \<open>newClient\<close>); \<^verbatim>\<open>consulsd.NewClient\<close> wraps the client it is given.
\<close>

record consul_config =
  Address :: string

datatype 'cc sd_client = consulsd_NewClient 'cc

text \<open>One \<^verbatim>\<open>logger.Log(k1, v1, k2, v2, ...)\<close> call is the list of its key/value pairs.\<close>

datatype 'e logval = LStr string | LErr 'e

type_synonym 'e keyvals = "(string \<times> 'e logval) list"

text \<open>
  A process either ends in \<^verbatim>\<open>os.Exit(code)\<close> or goes on with a value: the client that
  \<^verbatim>\<open>getClient\<close> returns, the installed gateway that \<^verbatim>\<open>main\<close> serves.
\<close>

datatype 'a process = Exit (exit_code: int) | Running (running: 'a)

text \<open>
  The objects that the wiring constructs. Every call of \<^verbatim>\<open>consulsd.NewInstancer\<close>,
  \<^verbatim>\<open>sd.NewEndpointer\<close>, \<^verbatim>\<open>lb.NewRoundRobin\<close> and \<^verbatim>\<open>lb.Retry\<close> makes a new object; an
  object is referred to by its index in the list of its kind, in order of construction.
  The \<^verbatim>\<open>logger\<close> argument of the constructors is left out.
\<close>

record 'cl Instancer =
  in_client :: 'cl
  in_service :: string
  in_tags :: "string list"
  in_passingOnly :: bool

record 'f Endpointer =
  en_instancer :: nat
  en_factory :: 'f

record roundRobin =
  rr_endpointer :: nat
  rr_cursor :: nat

record retry =
  re_max :: int
  re_timeout :: int
  re_balancer :: nat

record ('cl, 'f) objects =
  instancers :: "'cl Instancer list"
  endpointers :: "'f Endpointer list"
  balancers :: "roundRobin list"
  retries :: "retry list"

definition no_objects :: "('cl, 'f) objects" where
  "no_objects = \<lparr>instancers = [], endpointers = [], balancers = [], retries = []\<rparr>"

definition NewInstancer ::
  "'cl \<Rightarrow> string \<Rightarrow> string list \<Rightarrow> bool \<Rightarrow> ('cl, 'f) objects \<Rightarrow> nat \<times> ('cl, 'f) objects" where
  "NewInstancer client service tags passingOnly h =
     (length (instancers h),
      h\<lparr>instancers := instancers h @
           [\<lparr>in_client = client, in_service = service, in_tags = tags,
             in_passingOnly = passingOnly\<rparr>]\<rparr>)"

definition NewEndpointer :: "nat \<Rightarrow> 'f \<Rightarrow> ('cl, 'f) objects \<Rightarrow> nat \<times> ('cl, 'f) objects" where
  "NewEndpointer instancer factory h =
     (length (endpointers h),
      h\<lparr>endpointers := endpointers h @ [\<lparr>en_instancer = instancer, en_factory = factory\<rparr>]\<rparr>)"

text \<open>
  Modelled from the spec: \<^verbatim>\<open>lb.NewRoundRobin\<close> is library code. By the spec (section 3,
  BalancerCursor) the cursor is mutable integer state owned by one Load Balancer
  instance; a new balancer starts with cursor 0, so that the first \<open>Select\<close> on
  \<open>[A, B, C]\<close> returns \<open>A\<close> (section 8).
\<close>

definition NewRoundRobin :: "nat \<Rightarrow> ('cl, 'f) objects \<Rightarrow> nat \<times> ('cl, 'f) objects" where
  "NewRoundRobin endpointer h =
     (length (balancers h),
      h\<lparr>balancers := balancers h @ [\<lparr>rr_endpointer = endpointer, rr_cursor = 0\<rparr>]\<rparr>)"

definition Retry :: "int \<Rightarrow> int \<Rightarrow> nat \<Rightarrow> ('cl, 'f) objects \<Rightarrow> nat \<times> ('cl, 'f) objects" where
  "Retry mx timeout balancer h =
     (length (retries h),
      h\<lparr>retries := retries h @ [\<lparr>re_max = mx, re_timeout = timeout, re_balancer = balancer\<rparr>]\<rparr>)"

text \<open>
  The request decoders and response encoders named at the four \<^verbatim>\<open>r.Handle\<close> calls, and
  \<^verbatim>\<open>httptransport.NewServer(endpoint, dec, enc)\<close>; the endpoint of a server is a retry
  object.
\<close>

datatype DecodeRequestFunc =
    DecodeHTTPSumRequest       \<comment> \<open>\<^verbatim>\<open>addtransport.DecodeHTTPSumRequest\<close>\<close>
  | DecodeHTTPConcatRequest    \<comment> \<open>\<^verbatim>\<open>addtransport.DecodeHTTPConcatRequest\<close>\<close>
  | DecodeUppercaseRequest     \<comment> \<open>\<^verbatim>\<open>stringsvc.DecodeUppercaseRequest\<close>\<close>

datatype EncodeResponseFunc =
    EncodeHTTPGenericResponse  \<comment> \<open>\<^verbatim>\<open>addtransport.EncodeHTTPGenericResponse\<close>\<close>
  | EncodeResponse             \<comment> \<open>\<^verbatim>\<open>stringsvc.EncodeResponse\<close>\<close>

datatype Server =
  NewServer (srv_endpoint: nat) (srv_dec: DecodeRequestFunc) (srv_enc: EncodeResponseFunc)

text \<open>\<^verbatim>\<open>r.Handle(path, handler)\<close> on the \<^verbatim>\<open>mux\<close> router: the routes in order of installation.\<close>

type_synonym router = "(string \<times> Server) list"

definition Handle :: "string \<Rightarrow> Server \<Rightarrow> router \<Rightarrow> router" where
  "Handle path handler r = r @ [(path, handler)]"

text \<open>Lines 70-101: the routes of the service registered as \<open>addsvc\<close>.\<close>

definition addsvc_routes ::
  "(string \<Rightarrow> 'e + 'a url_scheme) \<Rightarrow> flags \<Rightarrow> 'cl \<Rightarrow>
   router \<times> ('cl, string \<Rightarrow> ('a url_scheme, 'c, 'e) build) objects \<Rightarrow>
   router \<times> ('cl, string \<Rightarrow> ('a url_scheme, 'c, 'e) build) objects" where
  "addsvc_routes parse fl client rh =
     (let (r, h) = rh;
          tags = [];
          passingOnly = True;
          (instancer, h) = NewInstancer client ''addsvc'' tags passingOnly h;
          factory = addsvcFactory parse ''POST'' ''/sum'';
          (endpointer, h) = NewEndpointer instancer factory h;
          (balancer, h) = NewRoundRobin endpointer h;
          (retry, h) = Retry (retryMax fl) (retryTimeout fl) balancer h;
          sum' = retry;
          factory = addsvcFactory parse ''POST'' ''/concat'';
          (endpointer, h) = NewEndpointer instancer factory h;
          (balancer, h) = NewRoundRobin endpointer h;
          (retry, h) = Retry (retryMax fl) (retryTimeout fl) balancer h;
          concat' = retry;
          r = Handle ''/addsvc/sum''
                (NewServer sum' DecodeHTTPSumRequest EncodeHTTPGenericResponse) r;
          r = Handle ''/addsvc/concat''
                (NewServer concat' DecodeHTTPConcatRequest EncodeHTTPGenericResponse) r
      in (r, h))"

text \<open>Lines 104-129: the routes of the service registered as \<open>addstring\<close>.\<close>

definition stringsvc_routes ::
  "(string \<Rightarrow> 'e + 'a url_scheme) \<Rightarrow> flags \<Rightarrow> 'cl \<Rightarrow>
   router \<times> ('cl, string \<Rightarrow> ('a url_scheme, 'c, 'e) build) objects \<Rightarrow>
   router \<times> ('cl, string \<Rightarrow> ('a url_scheme, 'c, 'e) build) objects" where
  "stringsvc_routes parse fl client rh =
     (let (r, h) = rh;
          tags = [];
          passingOnly = True;
          (instancer, h) = NewInstancer client ''addstring'' tags passingOnly h;
          factory = stringsvcFactory parse ''POST'' ''/uppercase'';
          (endpointer, h) = NewEndpointer instancer factory h;
          (balancer, h) = NewRoundRobin endpointer h;
          (retry, h) = Retry (retryMax fl) (retryTimeout fl) balancer h;
          uppercase = retry;
          factory = stringsvcFactory parse ''POST'' ''/count'';
          (endpointer, h) = NewEndpointer instancer factory h;
          (balancer, h) = NewRoundRobin endpointer h;
          (retry, h) = Retry (retryMax fl) (retryTimeout fl) balancer h;
          count' = retry;
          r = Handle ''/stringsvc/uppercase''
                (NewServer uppercase DecodeUppercaseRequest EncodeResponse) r;
          r = Handle ''/stringsvc/count''
                (NewServer count' DecodeUppercaseRequest EncodeResponse) r
      in (r, h))"

text \<open>
  What \<^verbatim>\<open>main\<close> has built when it starts \<^verbatim>\<open>http.ListenAndServe(*httpAddr, r)\<close>.
\<close>

record ('cl, 'f) gateway =
  gw_addr :: string
  gw_router :: router
  gw_objects :: "('cl, 'f) objects"

text \<open>
  \<^verbatim>\<open>main\<close>, from the parsed flags to the start of the listener. The result is the list of
  \<^verbatim>\<open>logger.Log\<close> calls made and the state of the process. The two goroutines and the
  final \<^verbatim>\<open>logger.Log("exit", <-errc)\<close> are past the point the model stops at.
\<close>

definition main ::
  "'b consul_config_scheme \<Rightarrow> ('b consul_config_scheme \<Rightarrow> 'e + 'cc) \<Rightarrow>
   (string \<Rightarrow> 'pe + 'a url_scheme) \<Rightarrow> flags \<Rightarrow>
   'e keyvals list \<times>
   ('cc sd_client, string \<Rightarrow> ('a url_scheme, 'c, 'pe) build) gateway process" where
  "main defaultConfig newClient parse fl =
     (let consulConfig = defaultConfig;
          consulConfig = (if length (consulAddr fl) > 0
                          then consulConfig\<lparr>Address := consulAddr fl\<rparr> else consulConfig)
      in case newClient consulConfig of
           Inl err \<Rightarrow> ([[(''err'', LErr err)]], Exit 1)
         | Inr consulClient \<Rightarrow>
             (let client = consulsd_NewClient consulClient;
                  rh = ([], no_objects);
                  rh = addsvc_routes parse fl client rh;
                  (r, h) = stringsvc_routes parse fl client rh
              in ([[(''strtransport'', LStr ''HTTP''), (''addr'', LStr (httpAddr fl))]],
                  Running \<lparr>gw_addr = httpAddr fl, gw_router = r, gw_objects = h\<rparr>)))"

text \<open>
  \<^verbatim>\<open>getClient\<close> of package \<^verbatim>\<open>discovery\<close>. \<^verbatim>\<open>ReadConfig\<close> is not among the sources; its
  result's \<^verbatim>\<open>Consul\<close> field is the parameter \<open>consul\<close>.
\<close>

definition getClient ::
  "'b consul_config_scheme \<Rightarrow> ('b consul_config_scheme \<Rightarrow> 'e + 'cc) \<Rightarrow> string \<Rightarrow>
   'e keyvals list \<times> 'cc sd_client process" where
  "getClient defaultConfig newClient consul =
     (let consulConfig = defaultConfig;
          consulConfig = consulConfig\<lparr>Address := consul\<rparr>
      in case newClient consulConfig of
           Inl err \<Rightarrow> ([[(''err'', LErr err)]], Exit 1)
         | Inr consulClient \<Rightarrow> ([], Running (consulsd_NewClient consulClient)))"

text \<open>Following a route to the objects behind it.\<close>

definition route_server :: "router \<Rightarrow> string \<Rightarrow> Server option" where
  "route_server r path = map_of r path"

definition route_balancer :: "('cl, 'f, 'z) gateway_scheme \<Rightarrow> string \<Rightarrow> nat option" where
  "route_balancer g path =
     (case route_server (gw_router g) path of
        None \<Rightarrow> None
      | Some srv \<Rightarrow>
          (if srv_endpoint srv < length (retries (gw_objects g))
           then Some (re_balancer (retries (gw_objects g) ! srv_endpoint srv)) else None))"

definition route_endpointer :: "('cl, 'f, 'z) gateway_scheme \<Rightarrow> string \<Rightarrow> nat option" where
  "route_endpointer g path =
     (case route_balancer g path of
        None \<Rightarrow> None
      | Some b \<Rightarrow>
          (if b < length (balancers (gw_objects g))
           then Some (rr_endpointer (balancers (gw_objects g) ! b)) else None))"

definition route_instancer :: "('cl, 'f, 'z) gateway_scheme \<Rightarrow> string \<Rightarrow> nat option" where
  "route_instancer g path =
     (case route_endpointer g path of
        None \<Rightarrow> None
      | Some e \<Rightarrow>
          (if e < length (endpointers (gw_objects g))
           then Some (en_instancer (endpointers (gw_objects g) ! e)) else None))"

section \<open>Load balancer and retry orchestrator\<close>

text \<open>
  \<^verbatim>\<open>lb.NewRoundRobin\<close> and \<^verbatim>\<open>lb.Retry\<close> are called by \<^verbatim>\<open>main\<close> but their bodies are
  library code that is not among the sources. The definitions of this section follow
  sections 3, 4.4, 4.5 and 7 of the specification, except \<open>lb_retry_loop\<close> and
  \<open>lb_Invoke\<close>, which follow the library where it departs from section 4.4.
\<close>

text \<open>
  Modelled from the spec: the error values of the balancer and of the retry loop are
  library types. Section 7 names them: NoEndpointsError, TransportError (carrying the
  failure of one attempt), RetryExhaustedError (wrapping the last error) and CanceledError.
\<close>

datatype 't lb_error =
    NoEndpoints
  | TransportError 't
  | RetryExhausted "'t lb_error"
  | Canceled

text \<open>
  Modelled from the spec: the body of the round-robin balancer's \<open>Select\<close> is missing.
  Section 4.4: \<open>Select\<close> returns the record at \<open>cursor mod len(snapshot)\<close> and increments
  the cursor; it fails with a NoEndpoints error when the snapshot is empty. The cursor is
  passed in and the advanced cursor is returned with the record.
\<close>

definition Select :: "'ep list \<Rightarrow> nat \<Rightarrow> 't lb_error + ('ep \<times> nat)" where
  "Select snapshot cursor =
     (if snapshot = [] then Inl NoEndpoints
      else Inr (snapshot ! (cursor mod length snapshot), cursor + 1))"

text \<open>
  \<open>k\<close> consecutive \<open>Select\<close> calls on one balancer over one unchanging snapshot, each
  call starting from the cursor the one before it left; a failed call leaves the cursor.
\<close>

fun Select_calls :: "nat \<Rightarrow> 'ep list \<Rightarrow> nat \<Rightarrow> ('t lb_error + 'ep) list" where
  "Select_calls 0 snapshot cursor = []"
| "Select_calls (Suc k) snapshot cursor =
     (case Select snapshot cursor of
        Inl e \<Rightarrow> Inl e # Select_calls k snapshot cursor
      | Inr (ep, cursor') \<Rightarrow> Inr ep # Select_calls k snapshot cursor')"

text \<open>
  Modelled from the spec: \<open>Select\<close> called on a balancer object of the wiring. Section 3:
  the cursor is owned by one Load Balancer instance and only that balancer mutates it; so
  the call reads and advances the cursor of balancer \<open>b\<close> and of no other. The reference
  \<open>b\<close> is one that \<open>NewRoundRobin\<close> returned.
\<close>

definition Select_via ::
  "nat \<Rightarrow> 'ep list \<Rightarrow> ('cl, 'f) objects \<Rightarrow> ('t lb_error + 'ep) \<times> ('cl, 'f) objects" where
  "Select_via b snapshot h =
     (case Select snapshot (rr_cursor (balancers h ! b)) of
        Inl e \<Rightarrow> (Inl e, h)
      | Inr (ep, cursor') \<Rightarrow>
          (Inr ep, h\<lparr>balancers := (balancers h)[b := (balancers h ! b)\<lparr>rr_cursor := cursor'\<rparr>]\<rparr>))"

text \<open>
  Modelled from the spec: the pool and the transport are not among the sources. The
  record holds what one call of \<open>Invoke\<close> meets, with time counted in ticks from the start of the
  call: \<open>snapshot_at \<tau>\<close> is the snapshot the Endpoint Pool has published at time \<open>\<tau>\<close>
  (refreshes by the watcher change it between ticks), and \<open>respond ep req \<tau>\<close> is the
  transport invoke primitive of section 6: the endpoint \<open>ep\<close>, called with \<open>req\<close> at time
  \<open>\<tau>\<close>, answers after \<open>d\<close> ticks with a transport error (\<open>Inl\<close>) or a response (\<open>Inr\<close>).
\<close>

record ('ep, 'req, 'rsp, 't) world =
  snapshot_at :: "nat \<Rightarrow> 'ep list"
  respond :: "'ep \<Rightarrow> 'req \<Rightarrow> nat \<Rightarrow> nat \<times> ('t + 'rsp)"

text \<open>
  The state of one call: the balancer's cursor, the attempts made, the time elapsed, and
  the selections made so far, each with the time it was made at.
\<close>

record 'ep call =
  cl_cursor :: nat
  cl_attempts :: nat
  cl_elapsed :: nat
  cl_selected :: "(nat \<times> 'ep) list"

text \<open>
  Modelled from the spec: the body of the Retry Orchestrator (\<^verbatim>\<open>lb.Retry\<close>) is missing.
  Section 4.5: each iteration selects from the pool's current snapshot and invokes the
  selected endpoint, with the remaining budget as the attempt's deadline; a deadline that
  expires during the attempt ends the call with a cancellation error; a response ends it
  with success; after a failure the loop exits as soon as the attempts made reach
  \<open>maxAttempts\<close> or the elapsed time reaches \<open>timeoutBudget\<close>, with the most recent error
  wrapped as RetryExhausted. Section 4.4: a NoEndpoints error of \<open>Select\<close> is returned at
  once, with no part of the budget consumed.
\<close>

function retry_loop ::
  "('ep, 'req, 'rsp, 't) world \<Rightarrow> nat \<Rightarrow> nat \<Rightarrow> 'req \<Rightarrow> 'ep call \<Rightarrow>
   ('t lb_error + 'rsp) \<times> 'ep call" where
  "retry_loop W m t req s =
     (case Select (snapshot_at W (cl_elapsed s)) (cl_cursor s) of
        Inl e \<Rightarrow> (Inl e, s)
      | Inr (ep, cursor') \<Rightarrow>
          (let s1 = s\<lparr>cl_cursor := cursor', cl_attempts := cl_attempts s + 1,
                      cl_selected := cl_selected s @ [(cl_elapsed s, ep)]\<rparr>;
               (d, out) = respond W ep req (cl_elapsed s)
           in if t < cl_elapsed s + d then (Inl Canceled, s1\<lparr>cl_elapsed := t\<rparr>)
              else
                (let s2 = s1\<lparr>cl_elapsed := cl_elapsed s + d\<rparr> in
                 case out of
                   Inr rsp \<Rightarrow> (Inr rsp, s2)
                 | Inl te \<Rightarrow>
                     if m \<le> cl_attempts s2 \<or> t \<le> cl_elapsed s2
                     then (Inl (RetryExhausted (TransportError te)), s2)
                     else retry_loop W m t req s2)))"
  by pat_completeness auto
termination
  by (relation "measure (\<lambda>(W, m, t, req, s). m - cl_attempts s)") auto

declare retry_loop.simps [simp del]

text \<open>
  Modelled from the spec: \<open>Invoke(request)\<close> of section 4.5 is the loop started with no
  attempt made and no time elapsed, under the policy \<open>(m, t)\<close>, on the balancer's cursor.
\<close>

definition Invoke ::
  "('ep, 'req, 'rsp, 't) world \<Rightarrow> nat \<Rightarrow> nat \<Rightarrow> nat \<Rightarrow> 'req \<Rightarrow>
   ('t lb_error + 'rsp) \<times> 'ep call" where
  "Invoke W m t cursor req =
     retry_loop W m t req
       \<lparr>cl_cursor = cursor, cl_attempts = 0, cl_elapsed = 0, cl_selected = []\<rparr>"

text \<open>
  The retry loop as the library that \<^verbatim>\<open>main\<close> imports runs it (\<^verbatim>\<open>lb.Retry\<close>, called at
  line 88). Its body is not among the sources, and this definition is not taken from the
  specification: it records the library's behaviour in the one branch where the library
  departs from section 4.4. The library's loop does not tell an error of the balancer
  from an error of the endpoint: a failed \<open>Select\<close> is counted as an attempt like any other
  failure, and the loop goes round again until the attempts are used up, then returns the
  last error wrapped. Every other branch is that of \<open>retry_loop\<close>.
\<close>

function lb_retry_loop ::
  "('ep, 'req, 'rsp, 't) world \<Rightarrow> nat \<Rightarrow> nat \<Rightarrow> 'req \<Rightarrow> 'ep call \<Rightarrow>
   ('t lb_error + 'rsp) \<times> 'ep call" where
  "lb_retry_loop W m t req s =
     (case Select (snapshot_at W (cl_elapsed s)) (cl_cursor s) of
        Inl e \<Rightarrow>
          (let s1 = s\<lparr>cl_attempts := cl_attempts s + 1\<rparr> in
           if m \<le> cl_attempts s1 \<or> t \<le> cl_elapsed s1
           then (Inl (RetryExhausted e), s1)
           else lb_retry_loop W m t req s1)
      | Inr (ep, cursor') \<Rightarrow>
          (let s1 = s\<lparr>cl_cursor := cursor', cl_attempts := cl_attempts s + 1,
                      cl_selected := cl_selected s @ [(cl_elapsed s, ep)]\<rparr>;
               (d, out) = respond W ep req (cl_elapsed s)
           in if t < cl_elapsed s + d then (Inl Canceled, s1\<lparr>cl_elapsed := t\<rparr>)
              else
                (let s2 = s1\<lparr>cl_elapsed := cl_elapsed s + d\<rparr> in
                 case out of
                   Inr rsp \<Rightarrow> (Inr rsp, s2)
                 | Inl te \<Rightarrow>
                     if m \<le> cl_attempts s2 \<or> t \<le> cl_elapsed s2
                     then (Inl (RetryExhausted (TransportError te)), s2)
                     else lb_retry_loop W m t req s2)))"
  by pat_completeness auto
termination
  by (relation "measure (\<lambda>(W, m, t, req, s). m - cl_attempts s)") auto

declare lb_retry_loop.simps [simp del]

definition lb_Invoke ::
  "('ep, 'req, 'rsp, 't) world \<Rightarrow> nat \<Rightarrow> nat \<Rightarrow> nat \<Rightarrow> 'req \<Rightarrow>
   ('t lb_error + 'rsp) \<times> 'ep call" where
  "lb_Invoke W m t cursor req =
     lb_retry_loop W m t req
       \<lparr>cl_cursor = cursor, cl_attempts = 0, cl_elapsed = 0, cl_selected = []\<rparr>"

section \<open>Stand-ins for concrete inputs\<close>

text \<open>
  Two surroundings of a call, for statements evaluated at a concrete input: a pool of the
  two endpoints \<open>A\<close> and \<open>B\<close>, each of which refuses every call after \<open>d\<close> ticks, and a pool
  that is always empty.
\<close>

definition refusing :: "nat \<Rightarrow> (string, unit, unit, string) world" where
  "refusing d =
     \<lparr>snapshot_at = (\<lambda>\<tau>. [''A'', ''B'']),
      respond = (\<lambda>ep req \<tau>. (d, Inl (''refused by '' @ ep)))\<rparr>"

definition empty_pool :: "(string, unit, unit, string) world" where
  "empty_pool =
     \<lparr>snapshot_at = (\<lambda>\<tau>. []),
      respond = (\<lambda>ep req \<tau>. (0, Inl (''refused by '' @ ep)))\<rparr>"

text \<open>
  Where a statement is evaluated at a concrete instance address, \<^verbatim>\<open>url.Parse\<close> is replaced
  by a parser that accepts every string and keeps it, whole, beside an empty \<open>Path\<close>: the
  target of the endpoint then shows which string the factory handed to the parser.
\<close>

definition keep_parse :: "string \<Rightarrow> unit + string url_scheme" where
  "keep_parse s = Inr \<lparr>Path = [], \<dots> = s\<rparr>"

section \<open>Properties of the factories\<close>

text \<open>
  Claim C6. For every instance address and every path outside the recognised set of its
  service (\<open>/sum\<close>, \<open>/concat\<close> for \<open>addsvcFactory\<close>; \<open>/uppercase\<close>, \<open>/count\<close> for
  \<open>stringsvcFactory\<close>) the factory returns an error with a nil endpoint and a nil closer;
  for a recognised path and an address that \<open>parse\<close> accepts (after the factory's
  normalisation) it returns an endpoint and no error.
\<close>

theorem factory_build_error:
  fixes parse :: "string \<Rightarrow> 'e + 'a url_scheme"
  shows
    "(path \<notin> {''/sum'', ''/concat''} \<longrightarrow>
        (\<exists>e. (addsvcFactory parse method path instance :: ('a url_scheme, 'c, 'e) build)
               = (None, None, Some e)))
     \<and> (path \<notin> {''/uppercase'', ''/count''} \<longrightarrow>
        (\<exists>e. (stringsvcFactory parse method path instance :: ('a url_scheme, 'c, 'e) build)
               = (None, None, Some e)))
     \<and> (path \<in> {''/sum'', ''/concat''} \<and>
        parse (if prefix ''http'' instance then instance else ''http://'' @ instance) = Inr u \<longrightarrow>
        (\<exists>ep cl. (addsvcFactory parse method path instance :: ('a url_scheme, 'c, 'e) build)
               = (Some ep, cl, None)))
     \<and> (path \<in> {''/uppercase'', ''/count''} \<and>
        parse (if prefix ''http'' instance then instance else ''http://'' @ instance) = Inr u \<longrightarrow>
        (\<exists>ep cl. (stringsvcFactory parse method path instance :: ('a url_scheme, 'c, 'e) build)
               = (Some ep, cl, None)))"
  by (auto simp: addsvcFactory_def stringsvcFactory_def Let_def split: sum.splits)

theorem factory_build_error_witness:
  "(addsvcFactory (\<lambda>s. Inr \<lparr>Path = [], \<dots> = s\<rparr>) ''POST'' ''/count'' ''10.0.0.7:8080''
      :: (string url_scheme, unit, unit) build)
     = (None, None, Some (UnknownPath ''/count''))
   \<and> (stringsvcFactory (\<lambda>s. Inr \<lparr>Path = [], \<dots> = s\<rparr>) ''POST'' ''/sum'' ''10.0.0.7:8080''
      :: (string url_scheme, unit, unit) build)
     = (None, None, Some (UnknownPath ''/sum''))
   \<and> (addsvcFactory (\<lambda>s. Inr \<lparr>Path = [], \<dots> = s\<rparr>) ''POST'' ''/sum'' ''10.0.0.7:8080''
      :: (string url_scheme, unit, unit) build)
     = (Some (NewClient ''POST'' \<lparr>Path = ''/sum'', \<dots> = ''http://10.0.0.7:8080''\<rparr>
                EncodeHTTPGenericRequest DecodeHTTPSumResponse), None, None)
   \<and> (stringsvcFactory (\<lambda>s. Inr \<lparr>Path = [], \<dots> = s\<rparr>) ''POST'' ''/count'' ''10.0.0.7:8080''
      :: (string url_scheme, unit, unit) build)
     = (Some (NewClient ''POST'' \<lparr>Path = ''/count'', \<dots> = ''http://10.0.0.7:8080''\<rparr>
                EncodeRequest DecodeCountResponse), None, None)"
proof -
  let ?parse = "(\<lambda>s. Inr \<lparr>Path = [], \<dots> = s\<rparr>) :: string \<Rightarrow> unit + string url_scheme"
  let ?i = "''10.0.0.7:8080''"
  have p: "?parse (if prefix ''http'' ?i then ?i else ''http://'' @ ?i)
            = Inr \<lparr>Path = [], \<dots> = ''http://10.0.0.7:8080''\<rparr>"
    by simp
  have c: "''/count'' \<notin> {''/sum'', ''/concat''}" "''/count'' \<in> {''/uppercase'', ''/count''}"
    and s: "''/sum'' \<notin> {''/uppercase'', ''/count''}" "''/sum'' \<in> {''/sum'', ''/concat''}"
    by simp_all
  show ?thesis
    using c s p
      factory_build_error [of "''/count''" ?parse "''POST''" ?i, where ?'c = unit]
      factory_build_error [of "''/sum''" ?parse "''POST''" ?i, where ?'c = unit]
    by (simp add: addsvcFactory_def stringsvcFactory_def)
qed

text \<open>
  Claim C7 at the instance address \<open>httpbin.local:8080\<close>. The address carries no scheme,
  and the claim has the factory parse \<open>http://httpbin.local:8080\<close>. The guard of lines 151
  and 179 tests the first four characters for \<open>http\<close>, which the host name passes: both
  factories hand the address to the parser as it is, and the endpoint's target is the
  parse of \<open>httpbin.local:8080\<close>.
\<close>

theorem scheme_prefix_missed:
  "\<not> prefix ''http://'' ''httpbin.local:8080''
   \<and> (addsvcFactory keep_parse ''POST'' ''/sum'' ''httpbin.local:8080''
        :: (string url_scheme, unit, unit) build)
     = (Some (NewClient ''POST'' \<lparr>Path = ''/sum'', \<dots> = ''httpbin.local:8080''\<rparr>
                EncodeHTTPGenericRequest DecodeHTTPSumResponse), None, None)
   \<and> (addsvcFactory keep_parse ''POST'' ''/sum'' ''httpbin.local:8080''
        :: (string url_scheme, unit, unit) build)
     \<noteq> (Some (NewClient ''POST'' \<lparr>Path = ''/sum'', \<dots> = ''http://httpbin.local:8080''\<rparr>
                EncodeHTTPGenericRequest DecodeHTTPSumResponse), None, None)
   \<and> (stringsvcFactory keep_parse ''POST'' ''/count'' ''httpbin.local:8080''
        :: (string url_scheme, unit, unit) build)
     = (Some (NewClient ''POST'' \<lparr>Path = ''/count'', \<dots> = ''httpbin.local:8080''\<rparr>
                EncodeRequest DecodeCountResponse), None, None)"
  by (simp add: addsvcFactory_def stringsvcFactory_def keep_parse_def)

text \<open>
  Claim C9. Whenever \<open>addsvcFactory\<close> or \<open>stringsvcFactory\<close> returns an endpoint, the closer
  returned with it is nil (and so is the error): the factories hand the pool nothing to
  release.
\<close>

theorem factory_nil_closer:
  fixes parse :: "string \<Rightarrow> 'e + 'a url_scheme"
  shows
    "((addsvcFactory parse method path instance :: ('a url_scheme, 'c, 'e) build) = (Some ep, cl, err)
        \<longrightarrow> cl = None \<and> err = None)
     \<and> ((stringsvcFactory parse method path instance :: ('a url_scheme, 'c, 'e) build) = (Some ep, cl, err)
        \<longrightarrow> cl = None \<and> err = None)"
  by (auto simp: addsvcFactory_def stringsvcFactory_def Let_def split: sum.splits if_splits)

theorem factory_nil_closer_witness:
  "fst (snd (addsvcFactory keep_parse ''POST'' ''/concat'' ''10.0.0.7:8080''
      :: (string url_scheme, unit, unit) build)) = None
   \<and> fst (addsvcFactory keep_parse ''POST'' ''/concat'' ''10.0.0.7:8080''
      :: (string url_scheme, unit, unit) build)
       = Some (NewClient ''POST'' \<lparr>Path = ''/concat'', \<dots> = ''http://10.0.0.7:8080''\<rparr>
                EncodeHTTPGenericRequest DecodeHTTPConcatResponse)
   \<and> fst (snd (stringsvcFactory keep_parse ''POST'' ''/uppercase'' ''10.0.0.7:8080''
      :: (string url_scheme, unit, unit) build)) = None
   \<and> fst (stringsvcFactory keep_parse ''POST'' ''/uppercase'' ''10.0.0.7:8080''
      :: (string url_scheme, unit, unit) build)
       = Some (NewClient ''POST'' \<lparr>Path = ''/uppercase'', \<dots> = ''http://10.0.0.7:8080''\<rparr>
                EncodeRequest DecodeUppercaseResponse)"
proof -
  let ?a = "addsvcFactory keep_parse ''POST'' ''/concat'' ''10.0.0.7:8080''
      :: (string url_scheme, unit, unit) build"
  let ?s = "stringsvcFactory keep_parse ''POST'' ''/uppercase'' ''10.0.0.7:8080''
      :: (string url_scheme, unit, unit) build"
  have a: "?a = (Some (NewClient ''POST'' \<lparr>Path = ''/concat'', \<dots> = ''http://10.0.0.7:8080''\<rparr>
                EncodeHTTPGenericRequest DecodeHTTPConcatResponse), fst (snd ?a), snd (snd ?a))"
    by (simp add: addsvcFactory_def keep_parse_def)
  have s: "?s = (Some (NewClient ''POST'' \<lparr>Path = ''/uppercase'', \<dots> = ''http://10.0.0.7:8080''\<rparr>
                EncodeRequest DecodeUppercaseResponse), fst (snd ?s), snd (snd ?s))"
    by (simp add: stringsvcFactory_def keep_parse_def)
  from factory_nil_closer [THEN conjunct1, rule_format, OF a]
       factory_nil_closer [THEN conjunct2, rule_format, OF s]
  have "fst (snd ?a) = None" "fst (snd ?s) = None" by simp_all
  with a s show ?thesis by (metis fst_conv)
qed

section \<open>Properties of the round-robin balancer\<close>

lemma Select_calls_nth:
  "xs \<noteq> [] \<Longrightarrow>
   (Select_calls k xs c :: ('t lb_error + 'ep) list)
     = map (\<lambda>i. Inr (xs ! ((c + i) mod length xs))) [0..<k]"
proof (induction k arbitrary: c)
  case 0
  then show ?case by simp
next
  case (Suc k)
  have "[0..<Suc k] = 0 # map Suc [0..<k]"
    by (simp add: upt_conv_Cons map_Suc_upt del: upt_Suc)
  then show ?case
    using Suc by (simp add: Select_def comp_def del: upt_Suc)
qed

lemma Select_calls_rotate:
  "(Select_calls (length xs) xs c :: ('t lb_error + 'ep) list)
     = map Inr (rotate (c mod length xs) xs)"
proof (cases "xs = []")
  case True
  then show ?thesis by simp
next
  case False
  show ?thesis
    by (rule nth_equalityI) (simp_all add: Select_calls_nth [OF False] nth_rotate mod_add_left_eq)
qed

lemma mset_rotate_eq: "mset (rotate n xs) = mset xs"
  by (metis append_take_drop_id mset_append add.commute rotate_drop_take)

text \<open>
  Claim C2. For a static snapshot of \<open>N\<close> endpoints, \<open>N\<close> consecutive \<open>Select\<close> calls on one
  round-robin balancer, from any cursor, return the snapshot rotated by the cursor: a
  fixed cyclic order in which each endpoint occurs exactly as often as in the snapshot
  (once); the \<open>(N+1)\<close>-th call returns what the first returned; and on \<open>[A, B, C]\<close> six
  calls on a new balancer return \<open>A, B, C, A, B, C\<close>.
\<close>

theorem round_robin_cycle:
 "(Select_calls (length xs) xs c :: ('t lb_error + 'ep) list) = map Inr (rotate (c mod length xs) xs)
   \<and> mset (Select_calls (length xs) xs c :: ('t lb_error + 'ep) list) = mset (map Inr xs)
   \<and> (Select_calls (Suc (length xs)) xs c :: ('t lb_error + 'ep) list) ! length xs
       = (Select_calls (Suc (length xs)) xs c) ! 0
   \<and> (Select_calls 6 [A, B, C] 0 :: ('t lb_error + 'ep) list) = [Inr A, Inr B, Inr C, Inr A, Inr B, Inr C]"
proof (intro conjI)
  show "(Select_calls (length xs) xs c :: ('t lb_error + 'ep) list) = map Inr (rotate (c mod length xs) xs)"
    by (rule Select_calls_rotate)
  show "mset (Select_calls (length xs) xs c :: ('t lb_error + 'ep) list) = mset (map Inr xs)"
    by (simp add: Select_calls_rotate mset_rotate_eq)
  show "(Select_calls (Suc (length xs)) xs c :: ('t lb_error + 'ep) list) ! length xs
       = (Select_calls (Suc (length xs)) xs c) ! 0"
  proof (cases "xs = []")
    case True then show ?thesis by simp
  next
    case False
    then show ?thesis by (simp add: Select_calls_nth [OF False] nth_append del: upt_Suc Select_calls.simps)
  qed
  show "(Select_calls 6 [A, B, C] 0 :: ('t lb_error + 'ep) list) = [Inr A, Inr B, Inr C, Inr A, Inr B, Inr C]"
  proof -
    have u: "[0..<6] = [0, 1, 2, 3, 4, 5::nat]" by code_simp
    show ?thesis by (simp add: Select_calls_nth u)
  qed
qed

section \<open>Properties of the retry orchestrator\<close>

lemma retry_loop_empty:
  "snapshot_at W (cl_elapsed s) = [] \<Longrightarrow> retry_loop W m t req s = (Inl NoEndpoints, s)"
  by (subst retry_loop.simps) (simp add: Select_def)

lemma retry_loop_bounds:
  "retry_loop W m t req s = (res, s') \<Longrightarrow> cl_elapsed s \<le> t \<Longrightarrow>
   cl_elapsed s' \<le> t \<and> cl_attempts s' \<le> max m (Suc (cl_attempts s)) \<and>
   cl_attempts s \<le> cl_attempts s' \<and>
   (\<exists>new. cl_selected s' = cl_selected s @ new \<and>
          length new = cl_attempts s' - cl_attempts s \<and>
          (\<forall>(\<tau>, ep) \<in> set new. cl_elapsed s \<le> \<tau> \<and> ep \<in> set (snapshot_at W \<tau>)))"
proof (induction "m - cl_attempts s" arbitrary: s rule: less_induct)
  case less
  show ?case
  proof (cases "snapshot_at W (cl_elapsed s) = []")
    case True
    with less.prems show ?thesis by (simp add: retry_loop_empty)
  next
    case False
    obtain d out where r: "respond W (snapshot_at W (cl_elapsed s) ! (cl_cursor s mod length (snapshot_at W (cl_elapsed s)))) req (cl_elapsed s) = (d, out)"
      by (cases "respond W (snapshot_at W (cl_elapsed s) ! (cl_cursor s mod length (snapshot_at W (cl_elapsed s)))) req (cl_elapsed s)")
    let ?s2 = "s\<lparr>cl_cursor := cl_cursor s + 1, cl_attempts := cl_attempts s + 1,
                      cl_selected := cl_selected s @ [(cl_elapsed s, snapshot_at W (cl_elapsed s) ! (cl_cursor s mod length (snapshot_at W (cl_elapsed s))))],
                      cl_elapsed := cl_elapsed s + d\<rparr>"
    show ?thesis
    proof (cases "t < cl_elapsed s + d")
      case True
      with less.prems False r show ?thesis
        by (subst (asm) retry_loop.simps) (auto simp: Select_def Let_def)
    next
      case nt: False
      show ?thesis
      proof (cases out)
        case (Inr rsp)
        with less.prems False r nt show ?thesis
          by (subst (asm) retry_loop.simps) (auto simp: Select_def Let_def)
      next
        case (Inl te)
        show ?thesis
        proof (cases "m \<le> cl_attempts s + 1 \<or> t \<le> cl_elapsed s + d")
          case True
          with less.prems False r nt Inl show ?thesis
            by (subst (asm) retry_loop.simps) (auto simp: Select_def Let_def)
        next
          case go: False
          from less.prems(1) False r nt Inl go have rec: "retry_loop W m t req ?s2 = (res, s')"
            by (subst (asm) retry_loop.simps) (auto simp: Select_def Let_def)
          have "m - cl_attempts ?s2 < m - cl_attempts s" using go by auto
          from less.hyps [OF this rec] nt
          obtain new where
            a: "cl_elapsed s' \<le> t" "cl_attempts s' \<le> max m (Suc (cl_attempts ?s2))"
               "cl_attempts ?s2 \<le> cl_attempts s'" and
            b: "cl_selected s' = cl_selected ?s2 @ new"
               "length new = cl_attempts s' - cl_attempts ?s2" and
            c: "\<forall>(\<tau>, ep) \<in> set new. cl_elapsed ?s2 \<le> \<tau> \<and> ep \<in> set (snapshot_at W \<tau>)"
            by auto
          let ?ep = "snapshot_at W (cl_elapsed s) ! (cl_cursor s mod length (snapshot_at W (cl_elapsed s)))"
          have mem: "?ep \<in> set (snapshot_at W (cl_elapsed s))"
            using False by simp
          have 1: "cl_attempts s' \<le> max m (Suc (cl_attempts s))" using a(2) go by (simp add: max_def split: if_splits)
          have 2: "cl_attempts s \<le> cl_attempts s'" using a by simp
          have 3: "cl_selected s' = cl_selected s @ ((cl_elapsed s, ?ep) # new)" using b by simp
          have 4: "length ((cl_elapsed s, ?ep) # new) = cl_attempts s' - cl_attempts s"
            using b a by simp
          have 5: "\<forall>(\<tau>, ep) \<in> set ((cl_elapsed s, ?ep) # new).
                     cl_elapsed s \<le> \<tau> \<and> ep \<in> set (snapshot_at W \<tau>)"
            using c mem by auto
          from a(1) 1 2 3 4 5 show ?thesis by blast
        qed
      qed
    qed
  qed
qed


lemma retry_loop_all_fail:
  assumes fail: "\<forall>\<tau><t. snapshot_at W \<tau> \<noteq> [] \<and>
                   (\<forall>ep \<in> set (snapshot_at W \<tau>).
                      \<exists>d te. respond W ep req \<tau> = (d, Inl te) \<and> d \<le> dmax)"
    and fit: "m * dmax < t"
  shows "cl_attempts s < m \<Longrightarrow> cl_elapsed s \<le> cl_attempts s * dmax \<Longrightarrow>
         retry_loop W m t req s = (res, s') \<Longrightarrow>
         cl_attempts s' = m \<and> cl_selected s' \<noteq> [] \<and>
         (\<exists>d te. respond W (snd (last (cl_selected s'))) req (fst (last (cl_selected s')))
                    = (d, Inl te) \<and>
                 res = Inl (RetryExhausted (TransportError te)))"
proof (induction "m - cl_attempts s" arbitrary: s rule: less_induct)
  case less
  let ?snap = "snapshot_at W (cl_elapsed s)"
  let ?ep = "?snap ! (cl_cursor s mod length ?snap)"
  have "cl_attempts s * dmax \<le> m * dmax"
    using less.prems(1) by (intro mult_le_mono1) simp
  with less.prems(2) fit have now: "cl_elapsed s < t" by linarith
  with fail have nonempty: "?snap \<noteq> []" by simp
  then have "?ep \<in> set ?snap" by simp
  with fail now obtain d te where r: "respond W ?ep req (cl_elapsed s) = (d, Inl te)" and d: "d \<le> dmax"
    by blast
  let ?s2 = "s\<lparr>cl_cursor := cl_cursor s + 1, cl_attempts := cl_attempts s + 1,
               cl_selected := cl_selected s @ [(cl_elapsed s, ?ep)],
               cl_elapsed := cl_elapsed s + d\<rparr>"
  have "cl_elapsed s + d \<le> Suc (cl_attempts s) * dmax"
    using less.prems(2) d by simp
  also have "\<dots> \<le> m * dmax"
    using less.prems(1) by (intro mult_le_mono1) simp
  finally have time: "cl_elapsed s + d < t" using fit by simp
  show ?case
  proof (cases "m \<le> cl_attempts s + 1")
    case True
    with less.prems(3) nonempty r time have "res = Inl (RetryExhausted (TransportError te))" "s' = ?s2"
      by (subst (asm) retry_loop.simps; auto simp: Select_def Let_def)+
    with True less.prems(1) r show ?thesis by simp
  next
    case False
    with less.prems(3) nonempty r time have rec: "retry_loop W m t req ?s2 = (res, s')"
      by (subst (asm) retry_loop.simps) (auto simp: Select_def Let_def)
    have 1: "m - cl_attempts ?s2 < m - cl_attempts s" using False by auto
    have 2: "cl_attempts ?s2 < m" using False by simp
    have 3: "cl_elapsed ?s2 \<le> cl_attempts ?s2 * dmax" using less.prems(2) d by simp
    from less.hyps [OF 1 2 3 rec] show ?thesis .
  qed
qed

text \<open>
  Claim C1, as stated, fails. With \<open>maxAttempts = 3\<close> and \<open>timeoutBudget = 200\<close>, over a pool
  whose two endpoints refuse every call after 100 ticks, the second failure arrives when
  the time budget is reached: \<open>Invoke\<close> has made two selections, not three, and wraps the
  failure of the second attempt.
\<close>

theorem retry_budget_counterexample:
  "Invoke (refusing 100) 3 200 0 ()
     = (Inl (RetryExhausted (TransportError ''refused by B'')),
        \<lparr>cl_cursor = 2, cl_attempts = 2, cl_elapsed = 200,
         cl_selected = [(0, ''A''), (100, ''B'')]\<rparr>)
   \<and> cl_attempts (snd (Invoke (refusing 100) 3 200 0 ())) \<noteq> 3
   \<and> fst (Invoke (refusing 100) 3 200 0 ())
       \<noteq> Inl (RetryExhausted (TransportError ''refused by A''))"
  by (simp add: Invoke_def refusing_def retry_loop.simps Select_def)

text \<open>
  Claim C1, amended. For every policy with \<open>maxAttempts = m > 0\<close> and \<open>timeoutBudget = t\<close>,
  \<open>Invoke\<close> makes at most \<open>m\<close> attempts (one selection each) and runs for at most \<open>t\<close>. When,
  at every time before \<open>t\<close>, the pool is not empty and each of its endpoints fails with a
  transport error within \<open>dmax\<close> ticks, and \<open>m\<close> such failures end before the budget is
  reached (\<open>m * dmax < t\<close>), it makes exactly \<open>m\<close> selections and attempts and returns
  RetryExhausted wrapping the failure of the \<open>m\<close>-th attempt.
\<close>

theorem retry_budget:
  fixes W :: "('ep, 'req, 'rsp, 't) world"
  assumes "0 < m" and "Invoke W m t c req = (res, s)"
  shows "cl_attempts s \<le> m \<and> cl_elapsed s \<le> t \<and> length (cl_selected s) = cl_attempts s \<and>
         ((\<forall>\<tau><t. snapshot_at W \<tau> \<noteq> [] \<and>
                  (\<forall>ep \<in> set (snapshot_at W \<tau>).
                     \<exists>d te. respond W ep req \<tau> = (d, Inl te) \<and> d \<le> dmax)) \<and>
          m * dmax < t \<longrightarrow>
          cl_attempts s = m \<and> length (cl_selected s) = m \<and>
          (\<exists>\<tau> ep d te. cl_selected s ! (m - 1) = (\<tau>, ep) \<and>
                       respond W ep req \<tau> = (d, Inl te) \<and>
                       res = Inl (RetryExhausted (TransportError te))))"
proof -
  let ?s0 = "\<lparr>cl_cursor = c, cl_attempts = 0, cl_elapsed = 0, cl_selected = []\<rparr> :: 'ep call"
  from assms(2) have run: "retry_loop W m t req ?s0 = (res, s)"
    by (simp add: Invoke_def)
  from retry_loop_bounds [OF run] assms(1)
  have b: "cl_attempts s \<le> m" "cl_elapsed s \<le> t" "length (cl_selected s) = cl_attempts s"
    by (auto simp: max_def split: if_splits)
  have "cl_attempts s = m \<and> length (cl_selected s) = m \<and>
        (\<exists>\<tau> ep d te. cl_selected s ! (m - 1) = (\<tau>, ep) \<and>
                     respond W ep req \<tau> = (d, Inl te) \<and>
                     res = Inl (RetryExhausted (TransportError te)))"
    if h: "\<forall>\<tau><t. snapshot_at W \<tau> \<noteq> [] \<and>
                  (\<forall>ep \<in> set (snapshot_at W \<tau>).
                     \<exists>d te. respond W ep req \<tau> = (d, Inl te) \<and> d \<le> dmax)"
          "m * dmax < t"
  proof -
    from retry_loop_all_fail [OF h _ _ run] assms(1)
    obtain d te where
      f: "cl_attempts s = m" "cl_selected s \<noteq> []"
         "respond W (snd (last (cl_selected s))) req (fst (last (cl_selected s))) = (d, Inl te)"
         "res = Inl (RetryExhausted (TransportError te))"
      by auto
    from f(1,2) b(3) have "last (cl_selected s) = cl_selected s ! (m - 1)"
      by (simp add: last_conv_nth)
    with f b(3) show ?thesis
      by (metis prod.collapse)
  qed
  with b show ?thesis by blast
qed

theorem retry_budget_witness:
  "Invoke (refusing 100) 3 500 0 ()
   = (Inl (RetryExhausted (TransportError ''refused by A'')),
      \<lparr>cl_cursor = 3, cl_attempts = 3, cl_elapsed = 300,
       cl_selected = [(0, ''A''), (100, ''B''), (200, ''A'')]\<rparr>)
   \<and> (3::nat) \<le> 3 \<and> (300::nat) \<le> 500 \<and> (3::nat) * 100 < 500"
proof -
  obtain res s where run: "Invoke (refusing 100) 3 500 0 () = (res, s)"
    by (cases "Invoke (refusing 100) 3 500 0 ()")
  have pos: "(0::nat) < 3" by simp
  have h: "(\<forall>\<tau><500. snapshot_at (refusing 100) \<tau> \<noteq> [] \<and>
             (\<forall>ep \<in> set (snapshot_at (refusing 100) \<tau>).
                \<exists>d te. respond (refusing 100) ep () \<tau> = (d, Inl te) \<and> d \<le> 100)) \<and>
           (3::nat) * 100 < 500"
    by (simp add: refusing_def)
  from retry_budget [OF pos run, of 100] h
  have "cl_attempts s = 3 \<and> cl_elapsed s \<le> 500 \<and> length (cl_selected s) = 3 \<and>
        (\<exists>\<tau> ep d te. cl_selected s ! (3 - 1) = (\<tau>, ep) \<and>
                     respond (refusing 100) ep () \<tau> = (d, Inl te) \<and>
                     res = Inl (RetryExhausted (TransportError te)))"
    by blast
  moreover have "Invoke (refusing 100) 3 500 0 ()
      = (Inl (RetryExhausted (TransportError ''refused by A'')),
         \<lparr>cl_cursor = 3, cl_attempts = 3, cl_elapsed = 300,
          cl_selected = [(0, ''A''), (100, ''B''), (200, ''A'')]\<rparr>)"
    by (simp add: Invoke_def refusing_def retry_loop.simps Select_def)
  ultimately show ?thesis by simp
qed

lemma lb_retry_loop_empty:
  "snapshot_at W (cl_elapsed s) = [] \<Longrightarrow> cl_elapsed s < t \<Longrightarrow> cl_attempts s < m \<Longrightarrow>
   lb_retry_loop W m t req s = (Inl (RetryExhausted NoEndpoints), s\<lparr>cl_attempts := m\<rparr>)"
proof (induction "m - cl_attempts s" arbitrary: s rule: less_induct)
  case less
  let ?s1 = "s\<lparr>cl_attempts := cl_attempts s + 1\<rparr>"
  show ?case
  proof (cases "m \<le> cl_attempts s + 1")
    case True
    with less.prems have "m = cl_attempts s + 1" by simp
    with less.prems show ?thesis
      by (subst lb_retry_loop.simps) (simp add: Select_def)
  next
    case False
    have 1: "m - cl_attempts ?s1 < m - cl_attempts s" using False by auto
    have "lb_retry_loop W m t req ?s1 = (Inl (RetryExhausted NoEndpoints), ?s1\<lparr>cl_attempts := m\<rparr>)"
      using less.hyps [OF 1] less.prems False by simp
    with less.prems False show ?thesis
      by (subst lb_retry_loop.simps) (simp add: Select_def)
  qed
qed

text \<open>
  Claim C3, as stated, fails. On a pool that is always empty, with \<open>maxAttempts = 3\<close> and
  \<open>timeoutBudget = 500\<close>, the library's loop does not return NoEndpoints at once with
  nothing consumed: it makes three failed selections, counts each as an attempt, and
  returns the retry error wrapping NoEndpoints.
\<close>

theorem empty_pool_counterexample:
  "lb_Invoke empty_pool 3 500 7 ()
     = (Inl (RetryExhausted NoEndpoints),
        \<lparr>cl_cursor = 7, cl_attempts = 3, cl_elapsed = 0, cl_selected = []\<rparr>)
   \<and> fst (lb_Invoke empty_pool 3 500 7 ()) \<noteq> Inl NoEndpoints
   \<and> cl_attempts (snd (lb_Invoke empty_pool 3 500 7 ())) \<noteq> 0"
  by (simp add: lb_Invoke_def empty_pool_def lb_retry_loop.simps Select_def)

text \<open>
  Claim C3, amended. \<open>Select\<close> on an empty snapshot fails with NoEndpoints. The retried call
  counts that failure as an attempt and selects again: an iteration that finds the pool
  empty while budget remains ends, with no time consumed, after the attempts are used up,
  in RetryExhausted wrapping NoEndpoints; in particular \<open>Invoke\<close> on a pool that is empty at
  the start makes exactly \<open>maxAttempts\<close> failed selections in zero elapsed time.
\<close>

theorem empty_pool_is_retried:
  "(Select [] c :: 't lb_error + ('ep \<times> nat)) = Inl NoEndpoints \<and>
   (snapshot_at W (cl_elapsed s) = [] \<and> cl_elapsed s < t \<and> cl_attempts s < m \<longrightarrow>
      lb_retry_loop W m t req s = (Inl (RetryExhausted NoEndpoints), s\<lparr>cl_attempts := m\<rparr>)) \<and>
   (snapshot_at W 0 = [] \<and> 0 < t \<and> 0 < m \<longrightarrow>
      lb_Invoke W m t c req
        = (Inl (RetryExhausted NoEndpoints),
           \<lparr>cl_cursor = c, cl_attempts = m, cl_elapsed = 0, cl_selected = []\<rparr>))"
proof (intro conjI impI)
  show "(Select [] c :: 't lb_error + ('ep \<times> nat)) = Inl NoEndpoints"
    by (simp add: Select_def)
next
  assume "snapshot_at W (cl_elapsed s) = [] \<and> cl_elapsed s < t \<and> cl_attempts s < m"
  then show "lb_retry_loop W m t req s
               = (Inl (RetryExhausted NoEndpoints), s\<lparr>cl_attempts := m\<rparr>)"
    by (simp add: lb_retry_loop_empty)
next
  assume "snapshot_at W 0 = [] \<and> 0 < t \<and> 0 < m"
  then show "lb_Invoke W m t c req
               = (Inl (RetryExhausted NoEndpoints),
                  \<lparr>cl_cursor = c, cl_attempts = m, cl_elapsed = 0, cl_selected = []\<rparr>)"
    by (simp add: lb_Invoke_def lb_retry_loop_empty)
qed

theorem empty_pool_is_retried_witness:
  "lb_Invoke empty_pool 3 500 7 ()
     = (Inl (RetryExhausted NoEndpoints),
        \<lparr>cl_cursor = 7, cl_attempts = 3, cl_elapsed = 0, cl_selected = []\<rparr>)"
proof -
  have h: "snapshot_at empty_pool 0 = [] \<and> (0::nat) < 500 \<and> (0::nat) < 3"
    by (simp add: empty_pool_def)
  from empty_pool_is_retried [of 7 empty_pool _ 500 3 "()", THEN conjunct2, THEN conjunct2] h
  show ?thesis by blast
qed

text \<open>
  Claim C4. Within one \<open>Invoke\<close>, every selection is made from the snapshot the pool has
  published at the time of that iteration; so if \<open>B\<close> is in no snapshot from time \<open>r\<close> on
  (a refresh removed it), no iteration at or after \<open>r\<close> selects \<open>B\<close>.
\<close>

theorem retry_reads_current_snapshot:
  assumes "Invoke W m t c req = (res, s)"
  shows "(\<forall>(\<tau>, ep) \<in> set (cl_selected s). ep \<in> set (snapshot_at W \<tau>)) \<and>
         ((\<forall>\<tau>. r \<le> \<tau> \<longrightarrow> B \<notin> set (snapshot_at W \<tau>)) \<longrightarrow>
          (\<forall>(\<tau>, ep) \<in> set (cl_selected s). r \<le> \<tau> \<longrightarrow> ep \<noteq> B))"
proof -
  from assms have "retry_loop W m t req
      \<lparr>cl_cursor = c, cl_attempts = 0, cl_elapsed = 0, cl_selected = []\<rparr> = (res, s)"
    by (simp add: Invoke_def)
  from retry_loop_bounds [OF this]
  have "\<forall>(\<tau>, ep) \<in> set (cl_selected s). ep \<in> set (snapshot_at W \<tau>)"
    by auto
  then show ?thesis by auto
qed

theorem retry_reads_current_snapshot_witness:
  "snd (Invoke \<lparr>snapshot_at = (\<lambda>\<tau>. if \<tau> < 5 then [''A'', ''B''] else [''A'', ''C'']),
                respond = (\<lambda>ep req \<tau>. (3, Inl ''refused'' :: string + unit))\<rparr>
          4 100 1 ())
   = \<lparr>cl_cursor = 5, cl_attempts = 4, cl_elapsed = 12,
      cl_selected = [(0, ''B''), (3, ''A''), (6, ''C''), (9, ''A'')]\<rparr>
   \<and> ''B'' \<notin> snd ` {x \<in> set [(0::nat, ''B''), (3, ''A''), (6, ''C''), (9, ''A'')]. 5 \<le> fst x}"
proof -
  let ?W = "\<lparr>snapshot_at = (\<lambda>\<tau>. if \<tau> < 5 then [''A'', ''B''] else [''A'', ''C'']),
             respond = (\<lambda>ep req \<tau>. (3, Inl ''refused'' :: string + unit))\<rparr>
            :: (string, unit, unit, string) world"
  obtain res s where run: "Invoke ?W 4 100 1 () = (res, s)"
    by (cases "Invoke ?W 4 100 1 ()")
  have gone: "\<forall>\<tau>. 5 \<le> \<tau> \<longrightarrow> ''B'' \<notin> set (snapshot_at ?W \<tau>)" by simp
  from retry_reads_current_snapshot [OF run, of 5 "''B''"] gone
  have never: "\<forall>(\<tau>, ep) \<in> set (cl_selected s). 5 \<le> \<tau> \<longrightarrow> ep \<noteq> ''B''"
    by blast
  have ev: "Invoke ?W 4 100 1 ()
      = (Inl (RetryExhausted (TransportError ''refused'')),
         \<lparr>cl_cursor = 5, cl_attempts = 4, cl_elapsed = 12,
          cl_selected = [(0, ''B''), (3, ''A''), (6, ''C''), (9, ''A'')]\<rparr>)"
    by (simp add: Invoke_def retry_loop.simps Select_def mod_Suc)
  with run have s: "s = \<lparr>cl_cursor = 5, cl_attempts = 4, cl_elapsed = 12,
          cl_selected = [(0, ''B''), (3, ''A''), (6, ''C''), (9, ''A'')]\<rparr>"
    by simp
  from never s have "''B'' \<notin> snd ` {x \<in> set [(0::nat, ''B''), (3, ''A''), (6, ''C''), (9, ''A'')]. 5 \<le> fst x}"
    by auto
  with ev show ?thesis by simp
qed

section \<open>Properties of startup and wiring\<close>

text \<open>What \<open>main\<close> has installed whenever it reaches the listener.\<close>

lemma main_running:
  fixes parse :: "string \<Rightarrow> 'pe + 'a url_scheme"
  assumes "(main defaultConfig newClient parse fl
             :: 'e keyvals list \<times> ('cc sd_client, string \<Rightarrow> ('a url_scheme, 'c, 'pe) build) gateway process)
           = (lg, Running g)"
  shows "gw_router g =
           [(''/addsvc/sum'', NewServer 0 DecodeHTTPSumRequest EncodeHTTPGenericResponse),
            (''/addsvc/concat'', NewServer 1 DecodeHTTPConcatRequest EncodeHTTPGenericResponse),
            (''/stringsvc/uppercase'', NewServer 2 DecodeUppercaseRequest EncodeResponse),
            (''/stringsvc/count'', NewServer 3 DecodeUppercaseRequest EncodeResponse)]"
    and "retries (gw_objects g) =
           [\<lparr>re_max = retryMax fl, re_timeout = retryTimeout fl, re_balancer = 0\<rparr>,
            \<lparr>re_max = retryMax fl, re_timeout = retryTimeout fl, re_balancer = 1\<rparr>,
            \<lparr>re_max = retryMax fl, re_timeout = retryTimeout fl, re_balancer = 2\<rparr>,
            \<lparr>re_max = retryMax fl, re_timeout = retryTimeout fl, re_balancer = 3\<rparr>]"
    and "balancers (gw_objects g) =
           [\<lparr>rr_endpointer = 0, rr_cursor = 0\<rparr>, \<lparr>rr_endpointer = 1, rr_cursor = 0\<rparr>,
            \<lparr>rr_endpointer = 2, rr_cursor = 0\<rparr>, \<lparr>rr_endpointer = 3, rr_cursor = 0\<rparr>]"
    and "endpointers (gw_objects g) =
           [\<lparr>en_instancer = 0, en_factory = addsvcFactory parse ''POST'' ''/sum''\<rparr>,
            \<lparr>en_instancer = 0, en_factory = addsvcFactory parse ''POST'' ''/concat''\<rparr>,
            \<lparr>en_instancer = 1, en_factory = stringsvcFactory parse ''POST'' ''/uppercase''\<rparr>,
            \<lparr>en_instancer = 1, en_factory = stringsvcFactory parse ''POST'' ''/count''\<rparr>]"
    and "map in_service (instancers (gw_objects g)) = [''addsvc'', ''addstring'']"
  using assms
  by (auto simp: main_def addsvc_routes_def stringsvc_routes_def NewInstancer_def
      NewEndpointer_def NewRoundRobin_def Retry_def Handle_def no_objects_def Let_def
      numeral_eq_Suc split: sum.splits)

text \<open>
  Claim C8. If \<^verbatim>\<open>api.NewClient\<close> fails at startup, the process logs the error under the key
  \<open>err\<close> and ends in \<^verbatim>\<open>os.Exit\<close> with a non-zero status, without installing a route or
  starting the listener; this holds for \<open>main\<close> and for \<open>getClient\<close>.
\<close>

theorem startup_failure_exits:
  fixes parse :: "string \<Rightarrow> 'pe + 'a url_scheme"
  shows
    "(newClient (if 0 < length (consulAddr fl) then defaultConfig\<lparr>Address := consulAddr fl\<rparr>
                 else defaultConfig) = Inl err \<longrightarrow>
        (\<exists>code. code \<noteq> 0 \<and>
           (main defaultConfig newClient parse fl
             :: 'e keyvals list \<times> ('cc sd_client, string \<Rightarrow> ('a url_scheme, 'c, 'pe) build) gateway process)
           = ([[(''err'', LErr err)]], Exit code)))
     \<and> (newClient (defaultConfig\<lparr>Address := consul\<rparr>) = Inl err \<longrightarrow>
        (\<exists>code. code \<noteq> 0 \<and>
           getClient defaultConfig newClient consul = ([[(''err'', LErr err)]], Exit code)))"
  by (simp add: main_def getClient_def Let_def)

theorem startup_failure_exits_witness:
  "(main \<lparr>Address = ''127.0.0.1:8500''\<rparr> (\<lambda>cfg. Inl (''bad address '' @ Address cfg)) keep_parse
      default_flags
     :: string keyvals list \<times>
        (unit sd_client, string \<Rightarrow> (string url_scheme, unit, unit) build) gateway process)
   = ([[(''err'', LErr ''bad address :8500'')]], Exit 1)
   \<and> (getClient \<lparr>Address = ''127.0.0.1:8500''\<rparr> (\<lambda>cfg. Inl (''bad address '' @ Address cfg))
        ''consul:8500'' :: string keyvals list \<times> unit sd_client process)
   = ([[(''err'', LErr ''bad address consul:8500'')]], Exit 1)"
  using startup_failure_exits
      [of "\<lambda>cfg. Inl (''bad address '' @ Address cfg) :: string + unit" default_flags
          "\<lparr>Address = ''127.0.0.1:8500''\<rparr>" "''bad address :8500''" keep_parse,
       where ?'c = unit]
    startup_failure_exits
      [of "\<lambda>cfg. Inl (''bad address '' @ Address cfg) :: string + unit" default_flags
          "\<lparr>Address = ''127.0.0.1:8500''\<rparr>" "''bad address consul:8500''" keep_parse
          "''consul:8500''", where ?'c = unit]
  by (simp add: default_flags_def main_def getClient_def)

text \<open>
  Claim C10. Whenever \<open>main\<close> reaches the listener, the route \<open>/stringsvc/count\<close> is bound to
  the same request decoder as \<open>/stringsvc/uppercase\<close>, \<^verbatim>\<open>stringsvc.DecodeUppercaseRequest\<close>;
  so, whatever the decoders compute, the two routes decode every request alike.
\<close>

theorem count_route_decoder:
  fixes parse :: "string \<Rightarrow> 'pe + 'a url_scheme"
  assumes "(main defaultConfig newClient parse fl
             :: 'e keyvals list \<times> ('cc sd_client, string \<Rightarrow> ('a url_scheme, 'c, 'pe) build) gateway process)
           = (lg, Running g)"
  shows "\<exists>u c. route_server (gw_router g) ''/stringsvc/uppercase'' = Some u \<and>
               route_server (gw_router g) ''/stringsvc/count'' = Some c \<and>
               srv_dec u = DecodeUppercaseRequest \<and> srv_dec c = DecodeUppercaseRequest \<and>
               (\<forall>decode req. decode (srv_dec c) req = decode (srv_dec u) req)"
  by (simp add: main_running(1) [OF assms] route_server_def)


theorem count_route_decoder_witness:
  "route_server (gw_router (running (snd
      (main \<lparr>Address = ''127.0.0.1:8500''\<rparr> Inr keep_parse default_flags
        :: unit keyvals list \<times>
           (consul_config sd_client, string \<Rightarrow> (string url_scheme, unit, unit) build) gateway process))))
     ''/stringsvc/count''
   = Some (NewServer 3 DecodeUppercaseRequest EncodeResponse)
   \<and> route_server (gw_router (running (snd
      (main \<lparr>Address = ''127.0.0.1:8500''\<rparr> Inr keep_parse default_flags
        :: unit keyvals list \<times>
           (consul_config sd_client, string \<Rightarrow> (string url_scheme, unit, unit) build) gateway process))))
     ''/stringsvc/uppercase''
   = Some (NewServer 2 DecodeUppercaseRequest EncodeResponse)"
proof -
  let ?m = "main \<lparr>Address = ''127.0.0.1:8500''\<rparr> Inr keep_parse default_flags
        :: unit keyvals list \<times>
           (consul_config sd_client, string \<Rightarrow> (string url_scheme, unit, unit) build) gateway process"
  have run: "?m = (fst ?m, Running (running (snd ?m)))"
    by (simp add: main_def Let_def split_def)
  from count_route_decoder [OF run]
  obtain u c where
    "route_server (gw_router (running (snd ?m))) ''/stringsvc/uppercase'' = Some u"
    "route_server (gw_router (running (snd ?m))) ''/stringsvc/count'' = Some c"
    "srv_dec u = DecodeUppercaseRequest" "srv_dec c = DecodeUppercaseRequest"
    by blast
  moreover have "srv_endpoint (the (route_server (gw_router (running (snd ?m))) ''/stringsvc/uppercase'')) = 2"
    "srv_enc (the (route_server (gw_router (running (snd ?m))) ''/stringsvc/uppercase'')) = EncodeResponse"
    "srv_endpoint (the (route_server (gw_router (running (snd ?m))) ''/stringsvc/count'')) = 3"
    "srv_enc (the (route_server (gw_router (running (snd ?m))) ''/stringsvc/count'')) = EncodeResponse"
    by (simp_all add: main_running(1) [OF run] route_server_def)
  ultimately show ?thesis
    by (metis Server.collapse option.sel)
qed

text \<open>
  Claim C5, as stated, fails. With the default flags, the routes \<open>/addsvc/sum\<close> and
  \<open>/addsvc/concat\<close> are served through two balancers (0 and 1) over two endpointers
  (0 and 1); a \<open>Select\<close> through the balancer of \<open>sum\<close> advances that balancer's cursor and
  leaves the cursor of the balancer of \<open>concat\<close> at 0.
\<close>

theorem shared_balancer_counterexample:
  "route_balancer (running (snd
      (main \<lparr>Address = ''127.0.0.1:8500''\<rparr> Inr keep_parse default_flags
        :: unit keyvals list \<times>
           (consul_config sd_client, string \<Rightarrow> (string url_scheme, unit, unit) build) gateway process)))
     ''/addsvc/sum'' = Some 0
   \<and> route_balancer (running (snd
      (main \<lparr>Address = ''127.0.0.1:8500''\<rparr> Inr keep_parse default_flags
        :: unit keyvals list \<times>
           (consul_config sd_client, string \<Rightarrow> (string url_scheme, unit, unit) build) gateway process)))
     ''/addsvc/concat'' = Some 1
   \<and> route_endpointer (running (snd
      (main \<lparr>Address = ''127.0.0.1:8500''\<rparr> Inr keep_parse default_flags
        :: unit keyvals list \<times>
           (consul_config sd_client, string \<Rightarrow> (string url_scheme, unit, unit) build) gateway process)))
     ''/addsvc/sum'' = Some 0
   \<and> route_endpointer (running (snd
      (main \<lparr>Address = ''127.0.0.1:8500''\<rparr> Inr keep_parse default_flags
        :: unit keyvals list \<times>
           (consul_config sd_client, string \<Rightarrow> (string url_scheme, unit, unit) build) gateway process)))
     ''/addsvc/concat'' = Some 1
   \<and> map rr_cursor (balancers (snd
        (Select_via 0 [''A'', ''B'', ''C''] (gw_objects (running (snd
          (main \<lparr>Address = ''127.0.0.1:8500''\<rparr> Inr keep_parse default_flags
            :: unit keyvals list \<times>
               (consul_config sd_client, string \<Rightarrow> (string url_scheme, unit, unit) build) gateway process))))
         :: (unit lb_error + string) \<times> _)))
     = [1, 0, 0, 0]"
proof -
  let ?m = "main \<lparr>Address = ''127.0.0.1:8500''\<rparr> Inr keep_parse default_flags
        :: unit keyvals list \<times>
           (consul_config sd_client, string \<Rightarrow> (string url_scheme, unit, unit) build) gateway process"
  have run: "?m = (fst ?m, Running (running (snd ?m)))"
    by (simp add: main_def Let_def split_def)
  note w = main_running [OF run]
  show ?thesis
    by (simp add: w route_balancer_def route_endpointer_def route_server_def
        Select_via_def Select_def)
qed

text \<open>
  Claim C5, amended. For each downstream service \<open>main\<close> constructs one instancer, shared
  by the service's two routes; every route has an endpointer, a round-robin balancer and
  a retry object of its own. So the bindings of \<open>sum\<close> and \<open>concat\<close> select through
  different balancers over different endpointers, and a \<open>Select\<close> through one of the two
  balancers leaves the cursor of the other as it was.
\<close>

theorem per_route_balancers:
  fixes parse :: "string \<Rightarrow> 'pe + 'a url_scheme"
  assumes "(main defaultConfig newClient parse fl
             :: 'e keyvals list \<times> ('cc sd_client, string \<Rightarrow> ('a url_scheme, 'c, 'pe) build) gateway process)
           = (lg, Running g)"
  shows "map in_service (instancers (gw_objects g)) = [''addsvc'', ''addstring''] \<and>
         map (route_instancer g)
           [''/addsvc/sum'', ''/addsvc/concat'', ''/stringsvc/uppercase'', ''/stringsvc/count'']
           = [Some 0, Some 0, Some 1, Some 1] \<and>
         map (route_endpointer g)
           [''/addsvc/sum'', ''/addsvc/concat'', ''/stringsvc/uppercase'', ''/stringsvc/count'']
           = [Some 0, Some 1, Some 2, Some 3] \<and>
         map (route_balancer g)
           [''/addsvc/sum'', ''/addsvc/concat'', ''/stringsvc/uppercase'', ''/stringsvc/count'']
           = [Some 0, Some 1, Some 2, Some 3] \<and>
         map (map_option srv_endpoint \<circ> route_server (gw_router g))
           [''/addsvc/sum'', ''/addsvc/concat'', ''/stringsvc/uppercase'', ''/stringsvc/count'']
           = [Some 0, Some 1, Some 2, Some 3] \<and>
         (\<forall>snapshot.
            rr_cursor (balancers (snd (Select_via 0 snapshot (gw_objects g)
                                        :: ('t lb_error + 'ep) \<times> _)) ! 1)
              = rr_cursor (balancers (gw_objects g) ! 1) \<and>
            rr_cursor (balancers (snd (Select_via 1 snapshot (gw_objects g)
                                        :: ('t lb_error + 'ep) \<times> _)) ! 0)
              = rr_cursor (balancers (gw_objects g) ! 0))"
  by (simp add: main_running [OF assms] route_instancer_def route_balancer_def
      route_endpointer_def route_server_def Select_via_def Select_def)

theorem per_route_balancers_witness:
  "map (route_balancer (running (snd
      (main \<lparr>Address = ''127.0.0.1:8500''\<rparr> Inr keep_parse default_flags
        :: unit keyvals list \<times>
           (consul_config sd_client, string \<Rightarrow> (string url_scheme, unit, unit) build) gateway process))))
     [''/addsvc/sum'', ''/addsvc/concat'', ''/stringsvc/uppercase'', ''/stringsvc/count'']
   = [Some 0, Some 1, Some 2, Some 3]
   \<and> map (route_instancer (running (snd
      (main \<lparr>Address = ''127.0.0.1:8500''\<rparr> Inr keep_parse default_flags
        :: unit keyvals list \<times>
           (consul_config sd_client, string \<Rightarrow> (string url_scheme, unit, unit) build) gateway process))))
     [''/addsvc/sum'', ''/addsvc/concat'', ''/stringsvc/uppercase'', ''/stringsvc/count'']
   = [Some 0, Some 0, Some 1, Some 1]"
proof -
  let ?m = "main \<lparr>Address = ''127.0.0.1:8500''\<rparr> Inr keep_parse default_flags
        :: unit keyvals list \<times>
           (consul_config sd_client, string \<Rightarrow> (string url_scheme, unit, unit) build) gateway process"
  have run: "?m = (fst ?m, Running (running (snd ?m)))"
    by (simp add: main_def Let_def split_def)
  from per_route_balancers [OF run, where ?'t = unit and ?'ep = unit]
  show ?thesis by simp
qed

end
